theory Spec2Isabelle
  imports Main "HOL-Library.Sublist"
begin

section \<open>Python values\<close>

text \<open>
  A Python \<open>str\<close> is a sequence of Unicode code points and \<open>len\<close> counts code points.
  The formatters emit U+2757, which is no 8-bit character, so a string of the model is a
  list of code points (natural numbers); \<open>lit\<close> embeds an ASCII literal.
\<close>

type_synonym str = "nat list"

definition lit :: "string \<Rightarrow> str" where
  "lit cs = map of_char cs"

text \<open>Truthiness of an optional string: \<open>None\<close> and the empty string are falsy.\<close>

fun truthy :: "str option \<Rightarrow> bool" where
  "truthy None = False"
| "truthy (Some s) = (s \<noteq> [])"

text \<open>The exceptions the formatters can raise.\<close>

datatype error =
    KeyError str
  | IndexError
  | UnboundLocalError str
  | TypeError
  | ValueError
  | Unsupported \<comment> \<open>no Python exception: an input outside the modelled part of a library function\<close>

text \<open>\<open>s.split(sep)\<close> for a separator of one code point: every occurrence splits, and
  the empty string gives one empty token.\<close>

fun split_sep :: "nat \<Rightarrow> str \<Rightarrow> str list" where
  "split_sep c [] = [[]]"
| "split_sep c (x # xs) =
     (if x = c then [] # split_sep c xs
      else (case split_sep c xs of
              [] \<Rightarrow> [[x]]
            | r # rs \<Rightarrow> (x # r) # rs))"

text \<open>\<open>delimiter.join(names)\<close>.\<close>

fun join :: "str \<Rightarrow> str list \<Rightarrow> str" where
  "join d [] = []"
| "join d [x] = x"
| "join d (x # y # ys) = x @ d @ join d (y # ys)"

text \<open>\<open>str(n)\<close> and \<open>"%d" % n\<close> for an integer: decimal digits, with a minus sign.\<close>

fun digits :: "nat \<Rightarrow> str" where
  "digits n = (if n < 10 then [48 + n] else digits (n div 10) @ [48 + n mod 10])"

declare digits.simps [simp del]

definition str_of_int :: "int \<Rightarrow> str" where
  "str_of_int i = (if i < 0 then 45 # digits (nat (- i)) else digits (nat i))"

text \<open>\<open>f"{n:,}"\<close>: the digits in groups of three from the right, separated by commas.
  \<open>group3\<close> works on the reversed digits.\<close>

fun group3 :: "str \<Rightarrow> str" where
  "group3 (a # b # c # d # rest) = a # b # c # 44 # group3 (d # rest)"
| "group3 ds = ds"

definition format_grouped :: "int \<Rightarrow> str" where
  "format_grouped i =
     (if i < 0 then [45] else []) @ rev (group3 (rev (digits (nat \<bar>i\<bar>))))"

text \<open>
  \<open>fmt % arg\<close> with one string argument. The model covers the directives \<open>%s\<close> and
  \<open>%%\<close>: the argument must be consumed exactly once (too many or too few directives
  raise \<open>TypeError\<close>), a lone \<open>%\<close> at the end raises \<open>ValueError\<close>. Every other
  directive (widths, flags, other conversion types) is outside the model and is
  reported as \<open>Unsupported\<close>, whatever Python does with it; the theorems on formatted
  lists assume a format on which the model returns a string, that is one \<open>%s\<close> among
  plain text and \<open>%%\<close>, as the docstring of \<open>format_taxon_names\<close> asks for.
  \<open>used\<close> tells whether the argument is consumed already.
\<close>

fun percent_format :: "bool \<Rightarrow> str \<Rightarrow> str \<Rightarrow> error + str" where
  "percent_format used [] arg = (if used then Inr [] else Inl TypeError)"
| "percent_format used [c] arg =
     (if c = 37 then Inl ValueError
      else (case percent_format used [] arg of Inl e \<Rightarrow> Inl e | Inr r \<Rightarrow> Inr (c # r)))"
| "percent_format used (c # d # fmt) arg =
     (if c \<noteq> 37 then
        (case percent_format used (d # fmt) arg of Inl e \<Rightarrow> Inl e | Inr r \<Rightarrow> Inr (c # r))
      else if d = 37 then
        (case percent_format used fmt arg of Inl e \<Rightarrow> Inl e | Inr r \<Rightarrow> Inr (37 # r))
      else if d = 115 then
        (if used then Inl TypeError
         else (case percent_format True fmt arg of Inl e \<Rightarrow> Inl e | Inr r \<Rightarrow> Inr (arg @ r)))
      else Inl Unsupported)"

text \<open>\<open>s.capitalize()\<close> on ASCII letters: the first code point in upper case, the rest
  in lower case. Other code points are left as they are (rank names are ASCII words).\<close>

definition upper :: "nat \<Rightarrow> nat" where
  "upper c = (if 97 \<le> c \<and> c \<le> 122 then c - 32 else c)"

definition lower :: "nat \<Rightarrow> nat" where
  "lower c = (if 65 \<le> c \<and> c \<le> 90 then c + 32 else c)"

fun capitalize :: "str \<Rightarrow> str" where
  "capitalize [] = []"
| "capitalize (c # cs) = upper c # map lower cs"

text \<open>\<open>s.split()\<close> with no argument: the maximal runs of code points that are not
  white space, where white space is what \<open>str.isspace\<close> accepts. \<open>w\<close> is the word read
  so far.\<close>

definition isspace :: "nat \<Rightarrow> bool" where
  "isspace c \<longleftrightarrow>
     (9 \<le> c \<and> c \<le> 13) \<or> (28 \<le> c \<and> c \<le> 32) \<or> c = 133 \<or> c = 160 \<or> c = 5760 \<or>
     (8192 \<le> c \<and> c \<le> 8202) \<or> c = 8232 \<or> c = 8233 \<or> c = 8239 \<or> c = 8287 \<or> c = 12288"

fun split_ws_from :: "str \<Rightarrow> str \<Rightarrow> str list" where
  "split_ws_from w [] = (if w = [] then [] else [w])"
| "split_ws_from w (c # cs) =
     (if isspace c then (if w = [] then split_ws_from [] cs else w # split_ws_from [] cs)
      else split_ws_from (w @ [c]) cs)"

definition split_ws :: "str \<Rightarrow> str list" where
  "split_ws s = split_ws_from [] s"

text \<open>\<open>re.sub(r"[0-9]", repl, s)\<close> for a replacement without backslashes, which is
  inserted as it is: every ASCII digit of \<open>s\<close> becomes \<open>repl\<close>.\<close>

definition re_sub_digit :: "str \<Rightarrow> str \<Rightarrow> str" where
  "re_sub_digit repl s = concat (map (\<lambda>c. if 48 \<le> c \<and> c \<le> 57 then repl else [c]) s)"

text \<open>The first error of a list of results, or all the values: a list comprehension
  whose element expression may raise.\<close>

fun collect :: "(error + 'a) list \<Rightarrow> error + 'a list" where
  "collect [] = Inr []"
| "collect (r # rs) =
     (case r of
        Inl e \<Rightarrow> Inl e
      | Inr x \<Rightarrow> (case collect rs of Inl e \<Rightarrow> Inl e | Inr xs \<Rightarrow> Inr (x # xs)))"

section \<open>The inflect engine\<close>

text \<open>
  The module holds one engine \<open>p = inflect.engine()\<close> of the third-party package
  \<open>inflect\<close>, whose code is not part of the repository. Three of its methods are called.

  \<open>p.plural(word, count)\<close> returns the word unchanged when \<open>str(count)\<close> is one of the
  engine's words for one, and its plural otherwise; the model forms the plural by
  appending \<open>s\<close>, which is the plural of the one noun the module passes, \<open>observation\<close>.

  \<open>p.number_to_words(num)\<close> drops every character of \<open>num\<close> that is no digit and
  spells the number that is left. The module calls it on one constant string only; the
  model spells numbers of at most one digit and reports every other input (more digits,
  a sign, a decimal point, letters, the empty string) as \<open>Unsupported\<close>.

  \<open>p.a(word)\<close>, the indefinite article followed by the word, is chosen by a long table
  of spelling rules; it is a parameter \<open>a\<close> of the function that calls it.
\<close>

definition pl_count_one :: "str list" where
  "pl_count_one = [lit ''1'', lit ''a'', lit ''an'', lit ''one'', lit ''each'', lit ''every'',
     lit ''this'', lit ''that'']"

definition plural :: "str \<Rightarrow> str \<Rightarrow> str" where
  "plural word count = (if count \<in> set pl_count_one then word else word @ lit ''s'')"

definition digit_word :: "nat \<Rightarrow> str" where
  "digit_word d =
     [lit ''zero'', lit ''one'', lit ''two'', lit ''three'', lit ''four'', lit ''five'',
      lit ''six'', lit ''seven'', lit ''eight'', lit ''nine''] ! (d - 48)"

definition number_to_words :: "str \<Rightarrow> error + str" where
  "number_to_words num =
     (if num = [] \<or>
         list_ex (\<lambda>c. c = 43 \<or> c = 45 \<or> c = 46 \<or> (65 \<le> c \<and> c \<le> 90) \<or> (97 \<le> c \<and> c \<le> 122)) num
      then Inl Unsupported
      else (case filter (\<lambda>c. 48 \<le> c \<and> c \<le> 57) num of
              [] \<Rightarrow> Inr (lit ''zero'')
            | [d] \<Rightarrow> Inr (digit_word d)
            | _ \<Rightarrow> Inl Unsupported))"

section \<open>Quality grade adjectives\<close>

text \<open>
  \<open>format_quality_grade\<close>. The options are a dict from option names to strings. The local
  variables \<open>research\<close> and \<open>needsid\<close> are bound only on some paths, so each is an
  optional boolean and reading an unbound one raises \<open>UnboundLocalError\<close>.
\<close>

definition read_local :: "string \<Rightarrow> bool option \<Rightarrow> error + bool" where
  "read_local v b = (case b of None \<Rightarrow> Inl (UnboundLocalError (lit v)) | Some x \<Rightarrow> Inr x)"

definition format_quality_grade :: "(str \<rightharpoonup> str) \<Rightarrow> error + str list" where
  "format_quality_grade options =
     (let quality_grade =
            split_sep 44 (case options (lit ''quality_grade'') of None \<Rightarrow> [] | Some v \<Rightarrow> v);
          verifiable = options (lit ''verifiable'');
          (research, needsid) =
            (if lit ''any'' \<notin> set quality_grade
             then (Some (lit ''research'' \<in> set quality_grade),
                   Some (lit ''needs_id'' \<in> set quality_grade))
             else (None, None));
          (research, needsid) =
            (if truthy verifiable
             then (if verifiable \<in> {Some (lit ''true''), Some []}
                   then (Some True, Some True) else (research, needsid))
             else (research, needsid))
      in if verifiable = Some (lit ''false'') then Inr [lit ''*not Verifiable*'']
         else (case read_local ''research'' research of
                 Inl e \<Rightarrow> Inl e
               | Inr r \<Rightarrow>
                   if r then
                     (case read_local ''needsid'' needsid of
                        Inl e \<Rightarrow> Inl e
                      | Inr n \<Rightarrow>
                          if n then Inr [lit ''*Verifiable*'']
                          else Inr [lit ''*Research Grade*''])
                   else
                     (case read_local ''needsid'' needsid of
                        Inl e \<Rightarrow> Inl e
                      | Inr n \<Rightarrow> if n then Inr [lit ''*Needs ID*''] else Inr [])))"

section \<open>Taxon names\<close>

text \<open>
  The tables \<open>RANK_LEVELS\<close>, \<open>TRINOMIAL_ABBR\<close> and \<open>TAXON_PRIMARY_RANKS\<close> and the
  URL prefix \<open>WWW_BASE_URL\<close> are imported from modules that are not among the sources,
  so they are parameters, collected in one record. Rank levels are compared only, so
  they are of any linearly ordered type.
\<close>

record 'l constants =
  RANK_LEVELS :: "str \<rightharpoonup> 'l"
  TRINOMIAL_ABBR :: "str \<rightharpoonup> str"
  TAXON_PRIMARY_RANKS :: "str list"
  WWW_BASE_URL :: str

text \<open>The fields of a \<open>Taxon\<close> that the formatters read. An entry of \<open>names\<close> is a
  dict read with \<open>get\<close>, so its keys \<open>locale\<close> and \<open>name\<close> may be missing. Of
  \<open>is_active\<close> only the truth value is read. The field \<open>id\<close> is \<open>taxon_id\<close> here.\<close>

record taxon_name =
  tn_locale :: "str option"
  tn_name :: "str option"

record taxon =
  name :: str
  rank :: str
  names :: "taxon_name list"
  preferred_common_name :: "str option"
  matched_term :: "str option"
  is_active :: bool
  observations_count :: int
  taxon_id :: int

record conservation_status =
  display_name :: str
  authority :: str
  url :: "str option"

definition TAXON_LIST_DELIMITER :: "str list" where
  "TAXON_LIST_DELIMITER = [lit '', '', lit '' > '']"

definition format_link :: "str \<Rightarrow> str option \<Rightarrow> str" where
  "format_link link_text u =
     (if truthy u then lit ''['' @ link_text @ lit '']('' @ the u @ lit '')'' else link_text)"

text \<open>A subscript \<open>d[k]\<close> of a dict raises \<open>KeyError\<close> on a missing key.\<close>

definition subscript :: "(str \<rightharpoonup> 'v) \<Rightarrow> str \<Rightarrow> error + 'v" where
  "subscript d k = (case d k of None \<Rightarrow> Inl (KeyError k) | Some v \<Rightarrow> Inr v)"

text \<open>The common name shown after the scientific name (lines 251 to 273 of
  \<open>format_taxon_name\<close>).\<close>

definition common_name :: "taxon \<Rightarrow> bool \<Rightarrow> bool \<Rightarrow> bool \<Rightarrow> str option \<Rightarrow> str option" where
  "common_name t with_term hierarchy with_common lang =
     (if with_common then
        (let preferred_common_name0 =
               (if truthy lang \<and> names t \<noteq> []
                then (case find (\<lambda>n. tn_locale n = lang) (names t) of
                        None \<Rightarrow> None
                      | Some n \<Rightarrow> tn_name n)
                else None);
             preferred_common_name1 =
               (if \<not> truthy preferred_common_name0 then preferred_common_name t
                else preferred_common_name0)
         in if with_term then
              (if matched_term t \<notin> {None, Some (name t), preferred_common_name1}
               then matched_term t else preferred_common_name1)
            else if hierarchy then None
            else preferred_common_name1)
      else None)"

definition INACTIVE_MARKER :: str where
  "INACTIVE_MARKER = lit '' '' @ [10071] @ lit '' Inactive Taxon''"

definition format_taxon_name ::
  "('l::linorder) constants \<Rightarrow> taxon \<Rightarrow> bool \<Rightarrow> bool \<Rightarrow> bool \<Rightarrow> bool \<Rightarrow> str option
     \<Rightarrow> error + str" where
  "format_taxon_name C t with_term hierarchy with_rank with_common lang =
     (let common = common_name t with_term hierarchy with_common lang in
      case subscript (RANK_LEVELS C) (rank t) of
        Inl e \<Rightarrow> Inl e
      | Inr rank_level \<Rightarrow>
      case subscript (RANK_LEVELS C) (lit ''genus'') of
        Inl e \<Rightarrow> Inl e
      | Inr genus_level \<Rightarrow>
      let name1 = (if rank_level \<le> genus_level then lit ''*'' @ name t @ lit ''*'' else name t) in
      case subscript (RANK_LEVELS C) (lit ''species'') of
        Inl e \<Rightarrow> Inl e
      | Inr species_level \<Rightarrow>
      let name2 =
            (if rank_level > species_level then
               (if hierarchy then
                  (if rank t \<in> set (TAXON_PRIMARY_RANKS C)
                   then [10] @ lit ''> **'' @ name1 @ lit ''**''
                   else name1)
                else if with_rank then capitalize (rank t) @ lit '' '' @ name1
                else name1)
             else
               (case TRINOMIAL_ABBR C (rank t) of
                  None \<Rightarrow> name1
                | Some abbr \<Rightarrow>
                    (case split_sep 32 name1 of
                       [tri0, tri1, tri2] \<Rightarrow>
                         tri0 @ lit '' '' @ tri1 @ lit ''* '' @ abbr @ lit '' *'' @ tri2
                     | _ \<Rightarrow> name1)));
          full_name =
            (if truthy common then name2 @ lit '' ('' @ the common @ lit '')'' else name2)
      in Inr (if \<not> is_active t then full_name @ INACTIVE_MARKER else full_name))"

section \<open>Lists of taxon names\<close>

text \<open>The helpers nested in \<open>fit_names\<close>; what they read from the enclosing scope
  (\<open>available_len\<close>, \<open>delimiter\<close>, \<open>names_fit\<close>) is passed to them.\<close>

definition more :: "int \<Rightarrow> str" where
  "more count = lit ''and '' @ str_of_int count @ lit '' more''"

definition formatted_len :: "str \<Rightarrow> str list \<Rightarrow> str \<Rightarrow> int" where
  "formatted_len delimiter names_fit nm =
     (\<Sum>item\<leftarrow>names_fit. int (length item) + int (length delimiter)) + int (length nm)"

definition overflow :: "int \<Rightarrow> str \<Rightarrow> str list \<Rightarrow> str \<Rightarrow> bool" where
  "overflow available_len delimiter names_fit nm \<longleftrightarrow>
     formatted_len delimiter names_fit nm > available_len"

text \<open>The \<open>while\<close> loop that makes room for the placeholder. \<open>del names_fit[-1]\<close> on
  the empty list raises \<open>IndexError\<close>.\<close>

function fit_names_shrink :: "int \<Rightarrow> str \<Rightarrow> str list \<Rightarrow> int \<Rightarrow> error + str list" where
  "fit_names_shrink available_len delimiter names_fit unprocessed =
     (if overflow available_len delimiter names_fit (more unprocessed) then
        (if names_fit = [] then Inl IndexError
         else fit_names_shrink available_len delimiter (butlast names_fit) (unprocessed + 1))
      else Inr (names_fit @ [more unprocessed]))"
  by pat_completeness auto
termination
  by (relation "measure (\<lambda>(available_len, delimiter, names_fit, unprocessed). length names_fit)")
     auto

declare fit_names_shrink.simps [simp del]

text \<open>The \<open>for\<close> loop over the names; \<open>todo\<close> holds the names not yet visited.\<close>

fun fit_names_loop :: "int \<Rightarrow> str \<Rightarrow> str list \<Rightarrow> str list \<Rightarrow> str list \<Rightarrow> error + str list" where
  "fit_names_loop available_len delimiter names0 names_fit [] = Inr names_fit"
| "fit_names_loop available_len delimiter names0 names_fit (nm # todo) =
     (if overflow available_len delimiter names_fit nm
      then fit_names_shrink available_len delimiter names_fit
             (int (length names0) - int (length names_fit))
      else fit_names_loop available_len delimiter names0 (names_fit @ [nm]) todo)"

definition fit_names :: "int \<Rightarrow> str \<Rightarrow> str \<Rightarrow> str list \<Rightarrow> error + str list" where
  "fit_names max_len names_format delimiter names0 =
     fit_names_loop (max_len - (int (length names_format) - 2)) delimiter names0 [] names0"

definition format_taxon_names ::
  "('l::linorder) constants \<Rightarrow> taxon list \<Rightarrow> bool \<Rightarrow> str \<Rightarrow> int \<Rightarrow> bool \<Rightarrow> str option
     \<Rightarrow> error + str" where
  "format_taxon_names C taxa with_term names_format max_len hierarchy lang =
     (let delimiter = TAXON_LIST_DELIMITER ! (if hierarchy then 1 else 0) in
      case collect (map (\<lambda>t. format_taxon_name C t with_term hierarchy True True lang) taxa) of
        Inl e \<Rightarrow> Inl e
      | Inr names0 \<Rightarrow>
          (case (if max_len \<noteq> 0 then fit_names max_len names_format delimiter names0
                 else Inr names0) of
             Inl e \<Rightarrow> Inl e
           | Inr names1 \<Rightarrow> percent_format False names_format (join delimiter names1)))"

section \<open>Conservation status\<close>

text \<open>\<open>format_taxon_conservation_status\<close>; \<open>a\<close> is the engine's method \<open>p.a\<close>. The
  argument of \<open>number_to_words\<close> is the raw string of a backslash and the digit 1.
  \<open>split()[0]\<close> raises \<open>IndexError\<close> when there is no word.\<close>

definition format_taxon_conservation_status ::
  "(str \<Rightarrow> str) \<Rightarrow> conservation_status \<Rightarrow> bool \<Rightarrow> bool \<Rightarrow> error + str" where
  "format_taxon_conservation_status a status brief inflect =
     (let description = display_name status in
      if brief then
        (let linked_status = format_link description (url status) in
         if inflect then
           (case number_to_words [92, 49] of
              Inl e \<Rightarrow> Inl e
            | Inr w \<Rightarrow>
                (case split_ws (re_sub_digit (lit '' '' @ w @ lit '' '') description) of
                   [] \<Rightarrow> Inl IndexError
                 | first_word # _ \<Rightarrow>
                     (case split_ws (a first_word) of
                        [] \<Rightarrow> Inl IndexError
                      | article # _ \<Rightarrow> Inr (article @ lit '' '' @ linked_status))))
         else Inr linked_status)
      else
        (let linked_status = format_link (authority status) (url status) in
         Inr (description @ lit '' ('' @ linked_status @ lit '')'')))"

section \<open>Observation counts\<close>

text \<open>The methods of \<open>TaxonFormatter.ObsCountFormatter\<close>, with the taxon of the
  formatter as argument.\<close>

definition ObsCountFormatter_count :: "taxon \<Rightarrow> int" where
  "ObsCountFormatter_count t = observations_count t"

definition ObsCountFormatter_url :: "'l constants \<Rightarrow> taxon \<Rightarrow> str" where
  "ObsCountFormatter_url C t =
     WWW_BASE_URL C @ lit ''/observations?taxon_id='' @ str_of_int (taxon_id t)"

definition ObsCountFormatter_link :: "'l constants \<Rightarrow> taxon \<Rightarrow> str" where
  "ObsCountFormatter_link C t =
     (let obs_count = ObsCountFormatter_count t;
          obs_url = ObsCountFormatter_url C t
      in format_link (format_grouped obs_count) (Some obs_url))"

definition ObsCountFormatter_description :: "'l constants \<Rightarrow> taxon \<Rightarrow> str" where
  "ObsCountFormatter_description C t =
     (let count = ObsCountFormatter_link C t
      in count @ lit '' '' @ plural (lit ''observation'') count)"

section \<open>Example data\<close>

text \<open>A small rank table and some taxa, on which the theorems below are instantiated.\<close>

definition example_constants :: "int constants" where
  "example_constants =
     \<lparr>RANK_LEVELS = [lit ''family'' \<mapsto> 30, lit ''genus'' \<mapsto> 20, lit ''species'' \<mapsto> 10,
        lit ''subspecies'' \<mapsto> 5, lit ''variety'' \<mapsto> 5],
      TRINOMIAL_ABBR = [lit ''subspecies'' \<mapsto> lit ''ssp.'', lit ''variety'' \<mapsto> lit ''var.''],
      TAXON_PRIMARY_RANKS = [lit ''kingdom'', lit ''family''],
      WWW_BASE_URL = lit ''https://www.inaturalist.org''\<rparr>"

definition example_variety :: taxon where
  "example_variety =
     \<lparr>name = lit ''Anser anser domesticus'', rank = lit ''variety'', names = [],
      preferred_common_name = Some (lit ''Domestic Goose''), matched_term = None,
      is_active = False, observations_count = 1234, taxon_id = 7\<rparr>"

definition example_family :: taxon where
  "example_family =
     \<lparr>name = lit ''Anatidae'', rank = lit ''family'', names = [],
      preferred_common_name = None, matched_term = None,
      is_active = True, observations_count = 2, taxon_id = 9\<rparr>"

definition example_unranked :: taxon where
  "example_unranked =
     \<lparr>name = lit ''Incertae'', rank = lit ''clade'', names = [],
      preferred_common_name = None, matched_term = None,
      is_active = True, observations_count = 0, taxon_id = 11\<rparr>"

section \<open>Properties\<close>

text \<open>
  C10. Setting \<open>verifiable\<close> to the empty string gives the same result as leaving the key
  out: the empty string is falsy, so the override that lists it is never reached, and it is
  not the string \<open>false\<close>.
\<close>

theorem format_quality_grade_empty_verifiable:
  "format_quality_grade (options(lit ''verifiable'' \<mapsto> [])) =
   format_quality_grade (options(lit ''verifiable'' := None))"
proof -
  have ne: "lit ''quality_grade'' \<noteq> lit ''verifiable''"
    by (simp add: lit_def)
  have f: "lit ''false'' \<noteq> []"
    by (simp add: lit_def)
  show ?thesis
    using ne f by (simp add: format_quality_grade_def)
qed

text \<open>
  C2. With \<open>any\<close> among the quality grades and no truthy \<open>verifiable\<close>, neither
  \<open>research\<close> nor \<open>needsid\<close> is bound when the adjectives are chosen: the call raises
  \<open>UnboundLocalError\<close> instead of returning a list.
\<close>

theorem format_quality_grade_any_unbound:
  "format_quality_grade [lit ''quality_grade'' \<mapsto> lit ''any''] =
   Inl (UnboundLocalError (lit ''research''))"
  by (simp add: format_quality_grade_def lit_def read_local_def)

text \<open>
  C8. A taxon whose rank is no key of \<open>RANK_LEVELS\<close> makes \<open>format_taxon_name\<close> raise
  \<open>KeyError\<close> for that rank, whatever the options.
\<close>

theorem format_taxon_name_unknown_rank:
  assumes "RANK_LEVELS C (rank t) = None"
  shows "format_taxon_name C t with_term hierarchy with_rank with_common lang =
         Inl (KeyError (rank t))"
  using assms by (simp add: format_taxon_name_def subscript_def)

theorem format_taxon_name_unknown_rank_witness:
  "RANK_LEVELS example_constants (rank example_unranked) = None \<and>
   format_taxon_name example_constants example_unranked False False True True None =
   Inl (KeyError (lit ''clade''))"
proof -
  have h: "RANK_LEVELS example_constants (rank example_unranked) = None"
    by (simp add: example_constants_def example_unranked_def lit_def)
  have r: "rank example_unranked = lit ''clade''"
    by (simp add: example_unranked_def)
  show ?thesis
    using h format_taxon_name_unknown_rank [OF h, of False False True True None] r by simp
qed

text \<open>
  C7. For an inactive taxon whose rank is in the rank table (as are \<open>genus\<close> and
  \<open>species\<close>), the formatted name ends with the inactive-taxon marker, for every
  combination of \<open>with_term\<close>, \<open>hierarchy\<close>, \<open>with_rank\<close>, \<open>with_common\<close> and \<open>lang\<close>.
\<close>

theorem format_taxon_name_inactive_marker:
  assumes "\<not> is_active t"
    and "rank t \<in> dom (RANK_LEVELS C)"
    and "lit ''genus'' \<in> dom (RANK_LEVELS C)"
    and "lit ''species'' \<in> dom (RANK_LEVELS C)"
  shows "\<exists>full_name.
           format_taxon_name C t with_term hierarchy with_rank with_common lang = Inr full_name \<and>
           suffix INACTIVE_MARKER full_name"
proof -
  from assms(2-4) obtain l g s where
    "RANK_LEVELS C (rank t) = Some l" "RANK_LEVELS C (lit ''genus'') = Some g"
    "RANK_LEVELS C (lit ''species'') = Some s"
    by auto
  with assms(1) show ?thesis
    by (simp add: format_taxon_name_def subscript_def Let_def suffix_def)
qed

theorem format_taxon_name_inactive_marker_witness:
  "\<not> is_active example_variety \<and>
   rank example_variety \<in> dom (RANK_LEVELS example_constants) \<and>
   (\<exists>full_name.
      format_taxon_name example_constants example_variety False True True True None =
        Inr full_name \<and>
      suffix INACTIVE_MARKER full_name)"
proof -
  have a: "\<not> is_active example_variety"
    by (simp add: example_variety_def)
  have b: "rank example_variety \<in> dom (RANK_LEVELS example_constants)"
    by (simp add: example_variety_def example_constants_def lit_def)
  have c: "lit ''genus'' \<in> dom (RANK_LEVELS example_constants)"
    by (simp add: example_constants_def lit_def)
  have d: "lit ''species'' \<in> dom (RANK_LEVELS example_constants)"
    by (simp add: example_constants_def lit_def)
  from format_taxon_name_inactive_marker [OF a b c d, of False True True True None]
  show ?thesis using a b by simp
qed

subsection \<open>Splitting at spaces\<close>

lemma split_sep_not_Nil: "split_sep c s \<noteq> []"
  by (induction s) (auto split: list.splits)

lemma split_sep_Cons:
  "x \<noteq> c \<Longrightarrow> split_sep c (x # s) = (x # hd (split_sep c s)) # tl (split_sep c s)"
  using split_sep_not_Nil [of c s] by (cases "split_sep c s") auto

lemma split_sep_snoc:
  "y \<noteq> c \<Longrightarrow>
   split_sep c (s @ [y]) = butlast (split_sep c s) @ [last (split_sep c s) @ [y]]"
proof (induction s)
  case Nil
  then show ?case by simp
next
  case (Cons x s)
  then show ?case
    using split_sep_not_Nil [of c s] split_sep_not_Nil [of c "s @ [y]"]
    by (cases "split_sep c s") (auto split: list.splits)
qed

lemma split_sep_italic:
  assumes "split_sep 32 s = [T1, T2, T3]"
  shows "split_sep 32 (lit ''*'' @ s @ lit ''*'') = [42 # T1, T2, T3 @ [42]]"
proof -
  have "split_sep 32 (s @ [42]) = [T1, T2, T3 @ [42]]"
    using assms by (simp add: split_sep_snoc)
  then have "split_sep 32 (42 # s @ [42]) = [42 # T1, T2, T3 @ [42]]"
    by (simp add: split_sep_Cons)
  then show ?thesis by (simp add: lit_def)
qed

lemma split_sep_length_italic:
  "length (split_sep 32 (lit ''*'' @ s @ lit ''*'')) = length (split_sep 32 s)"
proof -
  have a: "length (split_sep 32 (s @ [42])) = length (split_sep 32 s)"
    using split_sep_not_Nil [of 32 s] by (simp add: split_sep_snoc)
  have "length (split_sep 32 (42 # s @ [42])) = length (split_sep 32 (s @ [42]))"
    using split_sep_not_Nil [of 32 "s @ [42]"] by (simp add: split_sep_Cons del: split_sep.simps)
  with a show ?thesis by (simp add: lit_def)
qed

subsection \<open>Names of single taxa\<close>

text \<open>
  C5. For a taxon at or below the species level whose rank has an entry \<open>abbr\<close> in
  \<open>TRINOMIAL_ABBR\<close> and whose name splits at spaces into exactly three tokens
  \<open>T1\<close>, \<open>T2\<close>, \<open>T3\<close>, the formatted name starts with \<open>*T1 T2* abbr *T3*\<close>: the
  abbreviation stands unitalicized between the second and the third token. The species
  level of the table is assumed not to exceed its genus level.
\<close>

theorem format_taxon_name_trinomial:
  assumes "RANK_LEVELS C (rank t) = Some l"
    and "RANK_LEVELS C (lit ''genus'') = Some g"
    and "RANK_LEVELS C (lit ''species'') = Some s"
    and "l \<le> s" and "s \<le> g"
    and "TRINOMIAL_ABBR C (rank t) = Some abbr"
    and "split_sep 32 (name t) = [T1, T2, T3]"
  shows "\<exists>rest.
           format_taxon_name C t with_term hierarchy with_rank with_common lang =
             Inr (lit ''*'' @ T1 @ lit '' '' @ T2 @ lit ''* '' @ abbr @ lit '' *'' @ T3 @ lit ''*'' @ rest)"
proof -
  have lg: "l \<le> g" using assms(4,5) by simp
  have ls: "\<not> s < l" using assms(4) by simp
  have sp: "split_sep 32 (lit ''*'' @ name t @ lit ''*'') = [42 # T1, T2, T3 @ [42]]"
    by (rule split_sep_italic [OF assms(7)])
  show ?thesis
    using assms(1-3,6) lg ls sp
    by (simp add: format_taxon_name_def subscript_def Let_def) (simp add: lit_def)
qed

theorem format_taxon_name_trinomial_witness:
  "RANK_LEVELS example_constants (rank example_variety) = Some 5 \<and>
   TRINOMIAL_ABBR example_constants (rank example_variety) = Some (lit ''var.'') \<and>
   split_sep 32 (name example_variety) = [lit ''Anser'', lit ''anser'', lit ''domesticus''] \<and>
   (\<exists>rest.
      format_taxon_name example_constants example_variety False False True True None =
        Inr (lit ''*'' @ lit ''Anser'' @ lit '' '' @ lit ''anser'' @ lit ''* '' @ lit ''var.'' @
             lit '' *'' @ lit ''domesticus'' @ lit ''*'' @ rest))"
proof -
  have a: "RANK_LEVELS example_constants (rank example_variety) = Some 5"
    by (simp add: example_constants_def example_variety_def lit_def)
  have b: "RANK_LEVELS example_constants (lit ''genus'') = Some 20"
    by (simp add: example_constants_def lit_def)
  have c: "RANK_LEVELS example_constants (lit ''species'') = Some 10"
    by (simp add: example_constants_def lit_def)
  have d: "TRINOMIAL_ABBR example_constants (rank example_variety) = Some (lit ''var.'')"
    by (simp add: example_constants_def example_variety_def lit_def)
  have e: "split_sep 32 (name example_variety) = [lit ''Anser'', lit ''anser'', lit ''domesticus'']"
    by (simp add: example_variety_def lit_def)
  from format_taxon_name_trinomial [OF a b c _ _ d e, of False False True True None]
  show ?thesis using a d e by simp
qed

text \<open>
  C6. The scientific name is set in italic markers exactly when the rank level is at most
  the genus level. The formatted name is \<open>pre @ body @ post\<close>, where \<open>pre\<close> is
  empty, the block-quote and bold opening of the hierarchy, or the capitalized rank, and
  \<open>post\<close> is empty or starts with a space or with the bold closing. At or below genus
  level \<open>body\<close> is the name between two \<open>*\<close> (for a trinomial, with the abbreviation
  inserted outside the italics); above genus level \<open>body\<close> is the bare name. The species
  level of the table is assumed not to exceed its genus level.
\<close>

theorem format_taxon_name_italics:
  assumes "RANK_LEVELS C (rank t) = Some l"
    and "RANK_LEVELS C (lit ''genus'') = Some g"
    and "RANK_LEVELS C (lit ''species'') = Some s"
    and "s \<le> g"
  shows "\<exists>pre post.
           pre \<in> {[], [10] @ lit ''> **'', capitalize (rank t) @ lit '' ''} \<and>
           (post = [] \<or> prefix (lit '' '') post \<or> prefix (lit ''**'') post) \<and>
           (if l \<le> g then
              \<exists>inner.
                format_taxon_name C t with_term hierarchy with_rank with_common lang =
                  Inr (pre @ lit ''*'' @ inner @ lit ''*'' @ post) \<and>
                (inner = name t \<or>
                 (\<exists>T1 T2 T3 abbr.
                    l \<le> s \<and> TRINOMIAL_ABBR C (rank t) = Some abbr \<and>
                    split_sep 32 (name t) = [T1, T2, T3] \<and>
                    inner = T1 @ lit '' '' @ T2 @ lit ''* '' @ abbr @ lit '' *'' @ T3))
            else
              format_taxon_name C t with_term hierarchy with_rank with_common lang =
                Inr (pre @ name t @ post))"
proof -
  define common where "common = common_name t with_term hierarchy with_common lang"
  define tail where
    "tail = (if truthy common then lit '' ('' @ the common @ lit '')'' else []) @
            (if \<not> is_active t then INACTIVE_MARKER else [])"
  define name1 where
    "name1 = (if l \<le> g then lit ''*'' @ name t @ lit ''*'' else name t)"
  define name2 where
    "name2 =
       (if l > s then
          (if hierarchy then
             (if rank t \<in> set (TAXON_PRIMARY_RANKS C)
              then [10] @ lit ''> **'' @ name1 @ lit ''**''
              else name1)
           else if with_rank then capitalize (rank t) @ lit '' '' @ name1
           else name1)
        else
          (case TRINOMIAL_ABBR C (rank t) of
             None \<Rightarrow> name1
           | Some abbr \<Rightarrow>
               (case split_sep 32 name1 of
                  [tri0, tri1, tri2] \<Rightarrow>
                    tri0 @ lit '' '' @ tri1 @ lit ''* '' @ abbr @ lit '' *'' @ tri2
                | _ \<Rightarrow> name1)))"
  have out: "format_taxon_name C t with_term hierarchy with_rank with_common lang =
             Inr (name2 @ tail)"
    unfolding format_taxon_name_def subscript_def Let_def name2_def name1_def tail_def
      common_def
    using assms(1-3) by simp
  have tail: "tail = [] \<or> prefix (lit '' '') tail"
    by (simp add: tail_def INACTIVE_MARKER_def lit_def)
  have bold: "prefix (lit ''**'') (lit ''**'' @ tail)"
    by simp
  show ?thesis
  proof (cases "l > s")
    case above: True
    let ?P = "\<lambda>pre post.
      if l \<le> g then
        format_taxon_name C t with_term hierarchy with_rank with_common lang =
          Inr (pre @ lit ''*'' @ name t @ lit ''*'' @ post)
      else
        format_taxon_name C t with_term hierarchy with_rank with_common lang =
          Inr (pre @ name t @ post)"
    have "\<exists>pre post.
            pre \<in> {[], [10] @ lit ''> **'', capitalize (rank t) @ lit '' ''} \<and>
            (post = [] \<or> prefix (lit '' '') post \<or> prefix (lit ''**'') post) \<and> ?P pre post"
    proof (cases hierarchy)
      case True
      show ?thesis
      proof (cases "rank t \<in> set (TAXON_PRIMARY_RANKS C)")
        case primary: True
        have "?P ([10] @ lit ''> **'') (lit ''**'' @ tail)"
          using above True primary out by (simp add: name2_def name1_def)
        with bold show ?thesis by blast
      next
        case False
        have "?P [] tail"
          using above True False out by (simp add: name2_def name1_def)
        with tail show ?thesis by blast
      qed
    next
      case False
      show ?thesis
      proof (cases with_rank)
        case True
        have "?P (capitalize (rank t) @ lit '' '') tail"
          using above \<open>\<not> hierarchy\<close> True out by (simp add: name2_def name1_def)
        with tail show ?thesis by blast
      next
        case no_rank: False
        have "?P [] tail"
          using above False no_rank out by (simp add: name2_def name1_def)
        with tail show ?thesis by blast
      qed
    qed
    then obtain pre post where
      pp: "pre \<in> {[], [10] @ lit ''> **'', capitalize (rank t) @ lit '' ''}"
        "post = [] \<or> prefix (lit '' '') post \<or> prefix (lit ''**'') post" "?P pre post"
      by blast
    show ?thesis
    proof (cases "l \<le> g")
      case True
      with pp show ?thesis by (intro exI [of _ pre] exI [of _ post]) auto
    next
      case False
      with pp show ?thesis by (intro exI [of _ pre] exI [of _ post]) auto
    qed
  next
    case below: False
    then have lg: "l \<le> g" and ls: "l \<le> s"
      using assms(4) by auto
    have n1: "name1 = lit ''*'' @ name t @ lit ''*''"
      using lg by (simp add: name1_def)
    have "\<exists>inner. name2 = lit ''*'' @ inner @ lit ''*'' \<and>
            (inner = name t \<or>
             (\<exists>T1 T2 T3 abbr.
                l \<le> s \<and> TRINOMIAL_ABBR C (rank t) = Some abbr \<and>
                split_sep 32 (name t) = [T1, T2, T3] \<and>
                inner = T1 @ lit '' '' @ T2 @ lit ''* '' @ abbr @ lit '' *'' @ T3))"
    proof (cases "TRINOMIAL_ABBR C (rank t)")
      case None
      with below n1 have "name2 = lit ''*'' @ name t @ lit ''*''"
        by (simp add: name2_def)
      then show ?thesis by blast
    next
      case (Some abbr)
      show ?thesis
      proof (cases "length (split_sep 32 (name t)) = 3")
        case True
        then obtain T1 T2 T3 where sp: "split_sep 32 (name t) = [T1, T2, T3]"
          by (auto simp: length_Suc_conv numeral_3_eq_3)
        have "split_sep 32 name1 = [42 # T1, T2, T3 @ [42]]"
          unfolding n1 by (rule split_sep_italic [OF sp])
        with below Some have
          "name2 = lit ''*'' @ (T1 @ lit '' '' @ T2 @ lit ''* '' @ abbr @ lit '' *'' @ T3) @ lit ''*''"
          by (simp add: name2_def lit_def)
        with ls Some sp show ?thesis by blast
      next
        case False
        then have "length (split_sep 32 name1) \<noteq> 3"
          unfolding n1 by (simp only: split_sep_length_italic not_False_eq_True)
        then have "(case split_sep 32 name1 of
                      [tri0, tri1, tri2] \<Rightarrow>
                        tri0 @ lit '' '' @ tri1 @ lit ''* '' @ abbr @ lit '' *'' @ tri2
                    | _ \<Rightarrow> name1) = name1"
          by (auto split: list.splits)
        with below Some n1 have "name2 = lit ''*'' @ name t @ lit ''*''"
          by (simp add: name2_def)
        then show ?thesis by blast
      qed
    qed
    then obtain inner where
      inner: "name2 = lit ''*'' @ inner @ lit ''*''"
        "inner = name t \<or>
         (\<exists>T1 T2 T3 abbr.
            l \<le> s \<and> TRINOMIAL_ABBR C (rank t) = Some abbr \<and>
            split_sep 32 (name t) = [T1, T2, T3] \<and>
            inner = T1 @ lit '' '' @ T2 @ lit ''* '' @ abbr @ lit '' *'' @ T3)"
      by blast
    have "format_taxon_name C t with_term hierarchy with_rank with_common lang =
            Inr ([] @ lit ''*'' @ inner @ lit ''*'' @ tail)"
      by (simp add: out inner(1))
    with inner(2) tail lg show ?thesis
      by (intro exI [of _ "[]"] exI [of _ tail]) auto
  qed
qed

theorem format_taxon_name_italics_witness:
  "RANK_LEVELS example_constants (rank example_family) = Some 30 \<and>
   RANK_LEVELS example_constants (lit ''genus'') = Some 20 \<and>
   RANK_LEVELS example_constants (lit ''species'') = Some 10 \<and>
   (\<exists>pre post.
      pre \<in> {[], [10] @ lit ''> **'', capitalize (rank example_family) @ lit '' ''} \<and>
      (post = [] \<or> prefix (lit '' '') post \<or> prefix (lit ''**'') post) \<and>
      format_taxon_name example_constants example_family False False True True None =
        Inr (pre @ name example_family @ post))"
proof -
  have a: "RANK_LEVELS example_constants (rank example_family) = Some 30"
    by (simp add: example_constants_def example_family_def lit_def)
  have b: "RANK_LEVELS example_constants (lit ''genus'') = Some 20"
    by (simp add: example_constants_def lit_def)
  have c: "RANK_LEVELS example_constants (lit ''species'') = Some 10"
    by (simp add: example_constants_def lit_def)
  from format_taxon_name_italics [OF a b c, of False False True True None]
  show ?thesis using a b c by simp
qed

subsection \<open>Lists of names without a length bound\<close>

lemma format_taxon_name_returns:
  assumes "rank t \<in> dom (RANK_LEVELS C)"
    and "lit ''genus'' \<in> dom (RANK_LEVELS C)"
    and "lit ''species'' \<in> dom (RANK_LEVELS C)"
  shows "\<exists>full_name.
           format_taxon_name C t with_term hierarchy with_rank with_common lang = Inr full_name"
proof -
  from assms obtain l g s where
    "RANK_LEVELS C (rank t) = Some l" "RANK_LEVELS C (lit ''genus'') = Some g"
    "RANK_LEVELS C (lit ''species'') = Some s"
    by auto
  then show ?thesis
    by (simp add: format_taxon_name_def subscript_def Let_def)
qed

lemma collect_map_Inr: "collect (map Inr xs) = Inr xs"
  by (induction xs) simp_all

lemma all_return_map_Inr:
  "\<forall>x \<in> set xs. \<exists>y. f x = Inr y \<Longrightarrow> \<exists>ys. map f xs = map Inr ys"
proof (induction xs)
  case Nil
  then show ?case by simp
next
  case (Cons x xs)
  then obtain y ys where "f x = Inr y" "map f xs = map Inr ys"
    by auto
  then have "map f (x # xs) = map Inr (y # ys)"
    by simp
  then show ?case by blast
qed

lemma percent_format_used:
  "percent_format used fmt arg = Inr r \<Longrightarrow> used \<Longrightarrow> percent_format used fmt arg' = Inr r"
  by (induction used fmt arg arbitrary: r rule: percent_format.induct)
     (auto split: if_splits sum.splits)

lemma percent_format_shape:
  "percent_format used fmt arg = Inr r \<Longrightarrow> \<not> used \<Longrightarrow>
   \<exists>pre post. \<forall>arg'. percent_format used fmt arg' = Inr (pre @ arg' @ post)"
proof (induction used fmt arg arbitrary: r rule: percent_format.induct)
  case (1 used arg)
  then show ?case by simp
next
  case (2 used c arg)
  then show ?case by (simp split: if_splits)
next
  case (3 used c d fmt arg)
  show ?case
  proof (cases "c \<noteq> 37")
    case True
    with "3.prems" obtain r' where "percent_format used (d # fmt) arg = Inr r'"
      by (auto split: sum.splits)
    from "3.IH"(1) [OF True this "3.prems"(2)] obtain pre post where
      "\<forall>arg'. percent_format used (d # fmt) arg' = Inr (pre @ arg' @ post)"
      by blast
    with True have "\<forall>arg'. percent_format used (c # d # fmt) arg' = Inr ((c # pre) @ arg' @ post)"
      by simp
    then show ?thesis by blast
  next
    case False
    then have c: "c = 37" by simp
    show ?thesis
    proof (cases "d = 37")
      case True
      with c "3.prems" obtain r' where "percent_format used fmt arg = Inr r'"
        by (auto split: sum.splits)
      from "3.IH"(2) [OF False True this "3.prems"(2)] obtain pre post where
        "\<forall>arg'. percent_format used fmt arg' = Inr (pre @ arg' @ post)"
        by blast
      with c True have
        "\<forall>arg'. percent_format used (c # d # fmt) arg' = Inr ((37 # pre) @ arg' @ post)"
        by simp
      then show ?thesis by blast
    next
      case False
      with c "3.prems" have d: "d = 115"
        by (auto split: if_splits)
      with c False "3.prems" obtain r' where r': "percent_format True fmt arg = Inr r'"
        by (auto split: sum.splits)
      have "\<forall>arg'. percent_format True fmt arg' = Inr r'"
        using percent_format_used [OF r'] by simp
      with c d "3.prems"(2) have
        "\<forall>arg'. percent_format used (c # d # fmt) arg' = Inr ([] @ arg' @ r')"
        by simp
      then show ?thesis by blast
    qed
  qed
qed

lemma join_Cons: "ys \<noteq> [] \<Longrightarrow> join d (x # ys) = x @ d @ join d ys"
  by (cases ys) simp_all

lemma sublist_join: "n \<in> set ns \<Longrightarrow> sublist n (join d ns)"
proof (induction ns)
  case Nil
  then show ?case by simp
next
  case (Cons x ns)
  show ?case
  proof (cases "ns = []")
    case True
    with Cons.prems show ?thesis by simp
  next
    case False
    then have j: "join d (x # ns) = x @ d @ join d ns"
      by (rule join_Cons)
    show ?thesis
    proof (cases "n = x")
      case True
      then show ?thesis unfolding j by simp
    next
      case False
      with Cons have "sublist n (join d ns)" by simp
      then obtain ps ss where "join d ns = ps @ n @ ss"
        by (auto simp: sublist_def)
      then have "join d (x # ns) = (x @ d @ ps) @ n @ ss"
        unfolding j by simp
      then show ?thesis
        unfolding sublist_def by blast
    qed
  qed
qed

text \<open>
  C9. With \<open>max_len = 0\<close> nothing is truncated. When every taxon has a rank of the
  table and \<open>names_format\<close> holds one \<open>%s\<close> (so that it is \<open>pre\<close>, the directive,
  \<open>post\<close>), a string \<open>r\<close> is returned: it is \<open>pre\<close>, then all the formatted names in
  order joined by the delimiter, then \<open>post\<close>. Every formatted name occurs in \<open>r\<close>, and
  no placeholder is added, whatever the length.
\<close>

theorem format_taxon_names_unbounded:
  assumes "\<forall>t \<in> set taxa. rank t \<in> dom (RANK_LEVELS C)"
    and "lit ''genus'' \<in> dom (RANK_LEVELS C)"
    and "lit ''species'' \<in> dom (RANK_LEVELS C)"
    and fmt: "percent_format False names_format [] = Inr r0"
  shows "\<exists>names0 r pre post.
           map (\<lambda>t. format_taxon_name C t with_term hierarchy True True lang) taxa =
             map Inr names0 \<and>
           format_taxon_names C taxa with_term names_format 0 hierarchy lang = Inr r \<and>
           r = pre @ join (if hierarchy then lit '' > '' else lit '', '') names0 @ post \<and>
           (\<forall>n \<in> set names0. sublist n r) \<and>
           (\<forall>arg. percent_format False names_format arg = Inr (pre @ arg @ post))"
proof -
  define d where "d = (if hierarchy then lit '' > '' else lit '', '')"
  have "\<forall>t \<in> set taxa. \<exists>y. format_taxon_name C t with_term hierarchy True True lang = Inr y"
    using assms(1-3) format_taxon_name_returns by blast
  from all_return_map_Inr [OF this] obtain names0 where
    n: "map (\<lambda>t. format_taxon_name C t with_term hierarchy True True lang) taxa = map Inr names0"
    by blast
  from percent_format_shape [OF fmt] obtain pre post where
    shape: "\<forall>arg. percent_format False names_format arg = Inr (pre @ arg @ post)"
    by blast
  define r where "r = pre @ join d names0 @ post"
  have "format_taxon_names C taxa with_term names_format 0 hierarchy lang =
          percent_format False names_format (join d names0)"
    by (simp add: format_taxon_names_def n collect_map_Inr TAXON_LIST_DELIMITER_def d_def)
  with shape have out: "format_taxon_names C taxa with_term names_format 0 hierarchy lang = Inr r"
    by (simp add: r_def)
  have sub: "\<forall>n \<in> set names0. sublist n r"
  proof
    fix n assume "n \<in> set names0"
    then have "sublist n (join d names0)" by (rule sublist_join)
    then obtain ps ss where "join d names0 = ps @ n @ ss"
      by (auto simp: sublist_def)
    then have "r = (pre @ ps) @ n @ (ss @ post)"
      by (simp add: r_def)
    then show "sublist n r"
      unfolding sublist_def by blast
  qed
  from n out sub shape show ?thesis
    unfolding r_def d_def by blast
qed

theorem format_taxon_names_unbounded_witness:
  "rank example_family \<in> dom (RANK_LEVELS example_constants) \<and>
   rank example_variety \<in> dom (RANK_LEVELS example_constants) \<and>
   percent_format False (lit ''in: %s'') [] = Inr (lit ''in: '') \<and>
   (\<exists>names0 r pre post.
      map (\<lambda>t. format_taxon_name example_constants t False True True True None)
        [example_family, example_variety] = map Inr names0 \<and>
      format_taxon_names example_constants [example_family, example_variety] False
        (lit ''in: %s'') 0 True None = Inr r \<and>
      r = pre @ join (lit '' > '') names0 @ post \<and>
      (\<forall>n \<in> set names0. sublist n r) \<and>
      (\<forall>arg. percent_format False (lit ''in: %s'') arg = Inr (pre @ arg @ post)))"
proof -
  have a: "\<forall>t \<in> set [example_family, example_variety].
             rank t \<in> dom (RANK_LEVELS example_constants)"
    by (simp add: example_constants_def example_family_def example_variety_def lit_def)
  have b: "lit ''genus'' \<in> dom (RANK_LEVELS example_constants)"
    by (simp add: example_constants_def lit_def)
  have c: "lit ''species'' \<in> dom (RANK_LEVELS example_constants)"
    by (simp add: example_constants_def lit_def)
  have f: "percent_format False (lit ''in: %s'') [] = Inr (lit ''in: '')"
    by (simp add: lit_def)
  have "\<exists>names0 r pre post.
      map (\<lambda>t. format_taxon_name example_constants t False True True True None)
        [example_family, example_variety] = map Inr names0 \<and>
      format_taxon_names example_constants [example_family, example_variety] False
        (lit ''in: %s'') 0 True None = Inr r \<and>
      r = pre @ join (lit '' > '') names0 @ post \<and>
      (\<forall>n \<in> set names0. sublist n r) \<and>
      (\<forall>arg. percent_format False (lit ''in: %s'') arg = Inr (pre @ arg @ post))"
    using format_taxon_names_unbounded [OF a b c f, of False True None]
    by (simp only: if_True)
  moreover have "rank example_family \<in> dom (RANK_LEVELS example_constants)"
    and "rank example_variety \<in> dom (RANK_LEVELS example_constants)"
    using a by simp_all
  ultimately show ?thesis using f by blast
qed

subsection \<open>Observation counts\<close>

lemma format_grouped_1234: "format_grouped 1234 = lit ''1,234''"
  by code_simp

lemma format_grouped_2: "format_grouped 2 = lit ''2''"
  by code_simp

lemma bracket_not_one: "lit ''['' @ s \<notin> set pl_count_one"
  by (simp add: pl_count_one_def lit_def)

lemma ObsCountFormatter_url_nonempty: "ObsCountFormatter_url C t \<noteq> []"
  by (simp add: ObsCountFormatter_url_def lit_def)

text \<open>
  C3, as amended. A count of 1234 is shown as the link text \<open>1,234\<close>, grouped by
  thousands and wrapped in a link to the observations, followed by the plural
  \<open>observations\<close>; a count of 2 is shown in the same way, also with the plural.
\<close>

theorem ObsCountFormatter_description_plural:
  "ObsCountFormatter_description C (t\<lparr>observations_count := 1234\<rparr>) =
     lit ''[1,234]('' @ ObsCountFormatter_url C t @ lit '') observations'' \<and>
   ObsCountFormatter_description C (t\<lparr>observations_count := 2\<rparr>) =
     lit ''[2]('' @ ObsCountFormatter_url C t @ lit '') observations''"
proof -
  have u: "ObsCountFormatter_url C (t\<lparr>observations_count := n\<rparr>) = ObsCountFormatter_url C t" for n
    by (simp add: ObsCountFormatter_url_def)
  have l: "ObsCountFormatter_link C (t\<lparr>observations_count := n\<rparr>) =
           lit ''['' @ format_grouped n @ lit '']('' @ ObsCountFormatter_url C t @ lit '')''" for n
    using ObsCountFormatter_url_nonempty [of C t]
    by (simp add: ObsCountFormatter_link_def ObsCountFormatter_count_def format_link_def u)
  have d: "ObsCountFormatter_description C (t\<lparr>observations_count := n\<rparr>) =
           lit ''['' @ format_grouped n @ lit '']('' @ ObsCountFormatter_url C t @
           lit '') observations''" for n
    unfolding ObsCountFormatter_description_def Let_def l plural_def
    using bracket_not_one by (simp add: lit_def)
  show ?thesis
    by (simp add: d format_grouped_1234 format_grouped_2) (simp add: lit_def)
qed

lemma example_description:
  "ObsCountFormatter_description example_constants example_variety =
     lit ''[1,234](https://www.inaturalist.org/observations?taxon_id=7) observations''"
  by code_simp

text \<open>The claim as stated asks for the singular after 1234; the description of a taxon
  with 1234 observations does not end with it.\<close>

theorem ObsCountFormatter_description_1234_counterexample:
  "observations_count example_variety = 1234 \<and>
   ObsCountFormatter_description example_constants example_variety =
     lit ''[1,234](https://www.inaturalist.org/observations?taxon_id=7) observations'' \<and>
   \<not> suffix (lit '' observation'')
       (ObsCountFormatter_description example_constants example_variety)"
proof -
  have a: "observations_count example_variety = 1234"
    by (simp add: example_variety_def)
  have b: "\<not> suffix (lit '' observation'')
     (lit ''[1,234](https://www.inaturalist.org/observations?taxon_id=7) observations'')"
    by (simp add: suffix_to_prefix lit_def)
  show ?thesis
    using a b by (simp add: example_description)
qed

subsection \<open>Conservation status\<close>

text \<open>
  C4. The article is not chosen from the number word of the digit in the label:
  \<open>number_to_words\<close> is applied to the constant string of a backslash and 1 before
  the substitution runs, so every digit is replaced by \<open>one\<close>. For the label \<open>8\<close> the
  article is the one of \<open>one\<close>, for every article function \<open>a\<close>, where the number
  word \<open>eight\<close> would ask for \<open>an\<close>.
\<close>

theorem format_taxon_conservation_status_digit:
  "format_taxon_conservation_status a
     \<lparr>display_name = lit ''8'', authority = au, url = u\<rparr> True True =
   (case split_ws (a (lit ''one'')) of
      [] \<Rightarrow> Inl IndexError
    | article # _ \<Rightarrow> Inr (article @ lit '' '' @ format_link (lit ''8'') u))"
proof -
  have n: "number_to_words [92, 49] = Inr (lit ''one'')"
    by code_simp
  have w: "split_ws (re_sub_digit (lit '' '' @ lit ''one'' @ lit '' '') (lit ''8'')) = [lit ''one'']"
    by (simp add: split_ws_def re_sub_digit_def lit_def isspace_def)
  show ?thesis
    by (simp add: format_taxon_conservation_status_def n w)
qed

subsection \<open>Lists of names within a length bound\<close>

lemma formatted_len_join:
  "formatted_len d xs x = int (length (join d (xs @ [x])))"
  by (induction xs) (simp_all add: formatted_len_def join_Cons)

lemma suffix_join_snoc: "suffix x (join d (xs @ [x]))"
  by (induction xs) (simp_all add: join_Cons suffix_appendI)

lemma fit_names_shrink_returns:
  assumes "int (length (more (u + int (length nf)))) \<le> avail"
  shows "\<exists>nf' K. fit_names_shrink avail d nf u = Inr (nf' @ [more K]) \<and> u \<le> K \<and>
           formatted_len d nf' (more K) \<le> avail"
  using assms
proof (induction avail d nf u rule: fit_names_shrink.induct)
  case (1 avail d nf u)
  show ?case
  proof (cases "overflow avail d nf (more u)")
    case False
    then have "fit_names_shrink avail d nf u = Inr (nf @ [more u])"
      by (simp add: fit_names_shrink.simps)
    moreover have "formatted_len d nf (more u) \<le> avail"
      using False by (simp add: overflow_def)
    ultimately show ?thesis by blast
  next
    case True
    have ne: "nf \<noteq> []"
    proof
      assume "nf = []"
      with True "1.prems" show False
        by (simp add: overflow_def formatted_len_def)
    qed
    then have "u + 1 + int (length (butlast nf)) = u + int (length nf)"
      by (cases nf rule: rev_cases) simp_all
    with "1.prems" have "int (length (more (u + 1 + int (length (butlast nf))))) \<le> avail"
      by simp
    from "1.IH" [OF True ne this] obtain nf' K where
      "fit_names_shrink avail d (butlast nf) (u + 1) = Inr (nf' @ [more K])"
      "u + 1 \<le> K" "formatted_len d nf' (more K) \<le> avail"
      by blast
    moreover have "fit_names_shrink avail d nf u = fit_names_shrink avail d (butlast nf) (u + 1)"
      using True ne by (subst fit_names_shrink.simps) simp
    ultimately show ?thesis
      by (intro exI [of _ nf'] exI [of _ K]) simp
  qed
qed

lemma fit_names_loop_returns:
  assumes "int (length (more (int (length names0)))) \<le> avail"
    and "names0 = nf @ todo"
    and "int (length (join d names0)) > avail"
    and "nf = [] \<or> int (length (join d nf)) \<le> avail"
  shows "\<exists>nf' K. fit_names_loop avail d names0 nf todo = Inr (nf' @ [more K]) \<and> 1 \<le> K \<and>
           formatted_len d nf' (more K) \<le> avail"
  using assms
proof (induction todo arbitrary: nf)
  case Nil
  then have "nf = []" by auto
  with Nil have "0 > avail" by simp
  moreover have "0 \<le> int (length (more (int (length names0))))" by simp
  ultimately show ?case using Nil.prems(1) by linarith
next
  case (Cons nm todo)
  show ?case
  proof (cases "overflow avail d nf nm")
    case True
    have u: "int (length names0) - int (length nf) = 1 + int (length todo)"
      using Cons.prems(2) by simp
    have "int (length (more (1 + int (length todo) + int (length nf)))) \<le> avail"
      using Cons.prems(1,2) by (simp add: add.commute add.left_commute)
    from fit_names_shrink_returns [OF this, of d] obtain nf' K where
      "fit_names_shrink avail d nf (1 + int (length todo)) = Inr (nf' @ [more K])"
      "1 + int (length todo) \<le> K" "formatted_len d nf' (more K) \<le> avail"
      by blast
    then show ?thesis
      using True u by (intro exI [of _ nf'] exI [of _ K]) simp
  next
    case False
    then have "int (length (join d (nf @ [nm]))) \<le> avail"
      by (simp add: overflow_def formatted_len_join)
    then have "nf @ [nm] = [] \<or> int (length (join d (nf @ [nm]))) \<le> avail"
      by simp
    from Cons.IH [OF Cons.prems(1) _ Cons.prems(3) this] Cons.prems(2)
    obtain nf' K where
      "fit_names_loop avail d names0 (nf @ [nm]) todo = Inr (nf' @ [more K])"
      "1 \<le> K" "formatted_len d nf' (more K) \<le> avail"
      by auto
    then show ?thesis
      using False by (intro exI [of _ nf'] exI [of _ K]) simp
  qed
qed

lemma percent_format_length:
  "percent_format used fmt arg = Inr r \<Longrightarrow>
   int (length r) \<le> int (length fmt) + (if used then 0 else int (length arg) - 2)"
  by (induction used fmt arg arbitrary: r rule: percent_format.induct)
     (auto split: if_splits sum.splits)

lemma isl_case_sum_Inr: "isl (case x of Inl e \<Rightarrow> Inl e | Inr r \<Rightarrow> Inr (f r)) = isl x"
  by (cases x) simp_all

lemma percent_format_isl:
  "isl (percent_format used fmt arg) = isl (percent_format used fmt arg')"
  by (induction used fmt arg rule: percent_format.induct) (simp_all add: isl_case_sum_Inr)

lemma percent_format_any_arg:
  assumes "percent_format used fmt arg = Inr r"
  shows "\<exists>r'. percent_format used fmt arg' = Inr r'"
proof -
  have "\<not> isl (percent_format used fmt arg')"
    using assms percent_format_isl [of used fmt arg' arg] by simp
  then show ?thesis
    by (cases "percent_format used fmt arg'") simp_all
qed

lemma example_family_name:
  "format_taxon_name example_constants example_family False False True True None =
     Inr (lit ''Family Anatidae'')"
  by (simp add: format_taxon_name_def example_constants_def example_family_def subscript_def
      common_name_def lit_def upper_def lower_def)

lemma example_variety_name:
  "format_taxon_name example_constants example_variety False False True True None =
     Inr (lit ''*Anser anser* var. *domesticus* (Domestic Goose)'' @ INACTIVE_MARKER)"
  by (simp add: format_taxon_name_def example_constants_def example_variety_def subscript_def
      common_name_def lit_def INACTIVE_MARKER_def)

lemma more_1: "more 1 = lit ''and 1 more''"
  by (simp add: more_def str_of_int_def digits.simps lit_def)

lemma more_2: "more 2 = lit ''and 2 more''"
  by (simp add: more_def str_of_int_def digits.simps lit_def)

text \<open>
  C1, as amended. Let \<open>names_format\<close> hold one \<open>%s\<close>, let every taxon format to a name,
  let \<open>max_len\<close> be nonzero and let the budget be \<open>max_len - (len(names_format) - 2)\<close>.
  If the joined names exceed the budget, and the placeholder that counts all the names,
  \<open>and N more\<close> with \<open>N\<close> the number of taxa, is within the budget, then
  \<open>format_taxon_names\<close> returns the format applied to a text that ends with
  \<open>and K more\<close> for some \<open>K \<ge> 1\<close>, and the returned string is at most \<open>max_len\<close> long.
\<close>

theorem format_taxon_names_truncated:
  assumes names0:
      "map (\<lambda>t. format_taxon_name C t with_term hierarchy True True lang) taxa = map Inr names0"
    and fmt: "percent_format False names_format [] = Inr r0"
    and max_len: "max_len \<noteq> 0"
    and not_fit:
      "int (length (join (if hierarchy then lit '' > '' else lit '', '') names0)) >
       max_len - (int (length names_format) - 2)"
    and placeholder:
      "int (length (more (int (length names0)))) \<le> max_len - (int (length names_format) - 2)"
  shows "\<exists>r body K.
           format_taxon_names C taxa with_term names_format max_len hierarchy lang = Inr r \<and>
           percent_format False names_format body = Inr r \<and>
           suffix (more K) body \<and> 1 \<le> K \<and> int (length r) \<le> max_len"
proof -
  define d where "d = (if hierarchy then lit '' > '' else lit '', '')"
  define avail where "avail = max_len - (int (length names_format) - 2)"
  have delim: "TAXON_LIST_DELIMITER ! (if hierarchy then 1 else 0) = d"
    by (simp add: TAXON_LIST_DELIMITER_def d_def)
  have "\<exists>nf' K. fit_names_loop avail d names0 [] names0 = Inr (nf' @ [more K]) \<and> 1 \<le> K \<and>
          formatted_len d nf' (more K) \<le> avail"
    using placeholder not_fit
    by (intro fit_names_loop_returns) (simp_all add: avail_def d_def)
  then obtain nf' K where
    loop: "fit_names_loop avail d names0 [] names0 = Inr (nf' @ [more K])"
    and K: "1 \<le> K"
    and len: "formatted_len d nf' (more K) \<le> avail"
    by blast
  define body where "body = join d (nf' @ [more K])"
  from percent_format_any_arg [OF fmt] obtain r where
    r: "percent_format False names_format body = Inr r"
    by blast
  have "int (length r) \<le> int (length names_format) + (int (length body) - 2)"
    using percent_format_length [OF r] by simp
  moreover have "int (length body) \<le> avail"
    using len by (simp add: body_def formatted_len_join)
  ultimately have bound: "int (length r) \<le> max_len"
    by (simp add: avail_def)
  have suf: "suffix (more K) body"
    unfolding body_def by (rule suffix_join_snoc)
  have "format_taxon_names C taxa with_term names_format max_len hierarchy lang = Inr r"
    using max_len loop r
    by (simp add: format_taxon_names_def names0 collect_map_Inr delim fit_names_def
        avail_def body_def)
  with r suf K bound show ?thesis by blast
qed

theorem format_taxon_names_truncated_witness:
  "map (\<lambda>t. format_taxon_name example_constants t False False True True None)
     [example_family, example_variety] =
   map Inr [lit ''Family Anatidae'',
            lit ''*Anser anser* var. *domesticus* (Domestic Goose)'' @ INACTIVE_MARKER] \<and>
   (\<exists>r body K.
      format_taxon_names example_constants [example_family, example_variety] False
        (lit ''in: %s'') 40 False None = Inr r \<and>
      percent_format False (lit ''in: %s'') body = Inr r \<and>
      suffix (more K) body \<and> 1 \<le> K \<and> int (length r) \<le> 40)"
proof -
  have a: "map (\<lambda>t. format_taxon_name example_constants t False False True True None)
     [example_family, example_variety] =
   map Inr [lit ''Family Anatidae'',
            lit ''*Anser anser* var. *domesticus* (Domestic Goose)'' @ INACTIVE_MARKER]"
    by (simp add: example_family_name example_variety_name)
  have b: "percent_format False (lit ''in: %s'') [] = Inr (lit ''in: '')"
    by (simp add: lit_def)
  have c: "(40::int) \<noteq> 0"
    by simp
  have d: "int (length (join (if False then lit '' > '' else lit '', '')
             [lit ''Family Anatidae'',
              lit ''*Anser anser* var. *domesticus* (Domestic Goose)'' @ INACTIVE_MARKER])) >
           40 - (int (length (lit ''in: %s'')) - 2)"
    by (simp add: lit_def INACTIVE_MARKER_def)
  have e: "int (length (more (int (length
             [lit ''Family Anatidae'',
              lit ''*Anser anser* var. *domesticus* (Domestic Goose)'' @ INACTIVE_MARKER])))) \<le>
           40 - (int (length (lit ''in: %s'')) - 2)"
    by (simp add: more_2) (simp add: lit_def)
  from a format_taxon_names_truncated [OF a b c d e]
  show ?thesis by (rule conjI)
qed

text \<open>Without the condition on the placeholder the claim fails: one name that does not
  fit a budget of 5 leaves no room for \<open>and 1 more\<close> either, and the loop that makes
  room deletes from the empty list.\<close>

theorem format_taxon_names_small_budget_counterexample:
  "[example_family] \<noteq> [] \<and> (5::int) > 0 \<and>
   map (\<lambda>t. format_taxon_name example_constants t False False True True None)
     [example_family] = map Inr [lit ''Family Anatidae''] \<and>
   int (length (join (lit '', '') [lit ''Family Anatidae''])) >
     5 - (int (length (lit ''%s'')) - 2) \<and>
   format_taxon_names example_constants [example_family] False (lit ''%s'') 5 False None =
     Inl IndexError"
proof -
  have a: "map (\<lambda>t. format_taxon_name example_constants t False False True True None)
     [example_family] = map Inr [lit ''Family Anatidae'']"
    by (simp add: example_family_name)
  have b: "int (length (join (lit '', '') [lit ''Family Anatidae''])) >
     5 - (int (length (lit ''%s'')) - 2)"
    by (simp add: lit_def)
  have o1: "overflow 5 (lit '', '') [] (lit ''Family Anatidae'')"
    by (simp add: overflow_def formatted_len_def lit_def)
  have o2: "overflow 5 (lit '', '') [] (more 1)"
    by (simp add: more_1) (simp add: overflow_def formatted_len_def lit_def)
  have s: "fit_names_shrink 5 (lit '', '') [] 1 = Inl IndexError"
    using o2 by (simp add: fit_names_shrink.simps)
  have f: "fit_names 5 (lit ''%s'') (lit '', '') [lit ''Family Anatidae''] = Inl IndexError"
    using o1 s by (simp add: fit_names_def) (simp add: lit_def)
  have c: "format_taxon_names example_constants [example_family] False (lit ''%s'') 5 False None =
     Inl IndexError"
    using f by (simp add: format_taxon_names_def example_family_name TAXON_LIST_DELIMITER_def)
  show ?thesis
    using a b c by simp
qed

end
